theory Spec2Isabelle
  imports
    Complex_Main
    "HOL-Library.AList"
    "HOL-Library.Char_ord"
    "HOL-Library.List_Lexorder"
begin

section \<open>Happy Places: the placement ledger and its projections\<close>

text \<open>
  The program is one Python class, \<^verbatim>\<open>HappyPlaces\<close>, over an SQLite database of four
  tables. Every method opens a connection, runs its statements inside
  \<^verbatim>\<open>with self._connect() as conn:\<close> (commit on normal exit, rollback when an exception
  leaves the block) and returns plain dictionaries and lists.

  The embedding keeps the database as a record of four row lists, in rowid order. Writers
  take the store and return the outcome of the call together with the store afterwards;
  queries are functions of the store. Modelling decisions:
  \<^item> TEXT values are \<open>string\<close>; they are compared bytewise, as SQLite's BINARY collation
    does, which is the lexicographic order on \<open>char list\<close>.
  \<^item> INTEGER values are \<open>int\<close>. REAL values (Python floats) are idealised as \<open>rat\<close>:
    exact arithmetic, no rounding error, no infinities or NaN.
  \<^item> a nullable column or an \<^verbatim>\<open>Optional\<close> parameter is an \<open>option\<close>; parameters
    annotated \<^verbatim>\<open>str\<close> or \<^verbatim>\<open>int\<close> are never \<open>None\<close>.
  \<^item> the surrogate keys (\<^verbatim>\<open>placement_id\<close>, \<^verbatim>\<open>co_presence.id\<close>) and the
    \<^verbatim>\<open>created_at\<close> columns are written by the store and read by no operation; a row's
    position in its list stands for its rowid.
  \<^item> the metadata column holds the text \<^verbatim>\<open>json.dumps(metadata or {})\<close>; the model
    takes the serialised dictionary as the parameter and returns the stored text where the
    code returns \<^verbatim>\<open>json.loads\<close> of it.
  \<^item> foreign keys are declared but SQLite does not enforce them unless
    \<^verbatim>\<open>PRAGMA foreign_keys\<close> is switched on, which the code never does.
\<close>

subsection \<open>Schema\<close>

record item_row =
  item_id :: string
  label :: string
  category :: string
  purchase_date :: "string option"
  expected_lifespan_years :: "rat option"
  current_quantity :: "int option"
  refill_threshold :: "int option"
  usage_rate_per_day :: "rat option"
  metadata :: string

record placement_row =
  p_item_id :: string
  p_zone :: string
  p_distribution_type :: string
  p_routine :: "string option"
  p_motive :: "string option"
  p_timestamp :: string
  p_metadata :: string

record co_presence_row =
  item_a :: string
  item_b :: string
  c_zone :: string
  c_timestamp :: string

record zone_row =
  zone_id :: string
  zone_name :: string
  description :: string

record store =
  items :: "item_row list"
  placements :: "placement_row list"
  co_presence :: "co_presence_row list"
  zones :: "zone_row list"

text \<open>The database right after \<^verbatim>\<open>_init_db\<close> on a fresh file.\<close>

definition init_db :: store where
  "init_db = \<lparr>items = [], placements = [], co_presence = [], zones = []\<rparr>"

text \<open>The two CHECK constraints of the schema.\<close>

definition categories :: "string list" where
  "categories = [''good_stuff'', ''refillable'', ''disposable'']"

definition distribution_types :: "string list" where
  "distribution_types = [''stack'', ''spread'', ''lose'', ''discard'', ''placed'']"

datatype error =
  IntegrityError  \<comment> \<open>\<^verbatim>\<open>sqlite3.IntegrityError\<close>: a CHECK constraint failed\<close>
| ValueError      \<comment> \<open>\<^verbatim>\<open>datetime.fromisoformat\<close> rejected the stored date\<close>

subsection \<open>Statements and transactions\<close>

text \<open>
  \<^verbatim>\<open>INSERT OR REPLACE INTO items\<close>: a CHECK violation aborts the statement (REPLACE
  resolves only uniqueness and NOT NULL conflicts); otherwise the row with the same primary
  key, if any, is deleted and the new row is appended.
\<close>

definition insert_or_replace_item :: "item_row \<Rightarrow> store \<Rightarrow> error + store" where
  "insert_or_replace_item r s =
     (if category r \<in> set categories
      then Inr (s\<lparr>items := filter (\<lambda>i. item_id i \<noteq> item_id r) (items s) @ [r]\<rparr>)
      else Inl IntegrityError)"

definition insert_placement :: "placement_row \<Rightarrow> store \<Rightarrow> error + store" where
  "insert_placement r s =
     (if p_distribution_type r \<in> set distribution_types
      then Inr (s\<lparr>placements := placements s @ [r]\<rparr>)
      else Inl IntegrityError)"

text \<open>\<^verbatim>\<open>INSERT INTO co_presence\<close>: the table has no constraint that can fail.\<close>

definition insert_co_presence :: "co_presence_row \<Rightarrow> store \<Rightarrow> store" where
  "insert_co_presence r s = s\<lparr>co_presence := co_presence s @ [r]\<rparr>"

definition insert_or_replace_zone :: "zone_row \<Rightarrow> store \<Rightarrow> store" where
  "insert_or_replace_zone r s =
     s\<lparr>zones := filter (\<lambda>z. zone_id z \<noteq> zone_id r) (zones s) @ [r]\<rparr>"

text \<open>
  \<^verbatim>\<open>with self._connect() as conn: ...; conn.commit()\<close>: the body runs on the store; when
  it raises, the connection rolls back and the exception reaches the caller, so the store
  is the one the call started from.
\<close>

definition transaction :: "(store \<Rightarrow> error + store) \<Rightarrow> store \<Rightarrow> (error + unit) \<times> store" where
  "transaction body s =
     (case body s of Inl e \<Rightarrow> (Inl e, s) | Inr s' \<Rightarrow> (Inr (), s'))"

subsection \<open>Ledger writer\<close>

definition register_item ::
  "string \<Rightarrow> string \<Rightarrow> string \<Rightarrow> string option \<Rightarrow> rat option \<Rightarrow> int option \<Rightarrow> int option
     \<Rightarrow> rat option \<Rightarrow> string option \<Rightarrow> store \<Rightarrow> (error + unit) \<times> store" where
  "register_item iid lbl cat pdate lifespan quantity threshold usage_rate meta =
     transaction (insert_or_replace_item
       \<lparr>item_id = iid, label = lbl, category = cat, purchase_date = pdate,
        expected_lifespan_years = lifespan, current_quantity = quantity,
        refill_threshold = threshold, usage_rate_per_day = usage_rate,
        metadata = (case meta of None \<Rightarrow> ''{}'' | Some m \<Rightarrow> m)\<rparr>)"

text \<open>The loop \<^verbatim>\<open>for other_id in seen_with\<close>: the edge and its reverse, per listed id.\<close>

fun record_co_presence :: "string \<Rightarrow> string \<Rightarrow> string \<Rightarrow> string list \<Rightarrow> store \<Rightarrow> store" where
  "record_co_presence iid zone ts [] s = s"
| "record_co_presence iid zone ts (other_id # rest) s =
     record_co_presence iid zone ts rest
       (insert_co_presence \<lparr>item_a = other_id, item_b = iid, c_zone = zone, c_timestamp = ts\<rparr>
         (insert_co_presence \<lparr>item_a = iid, item_b = other_id, c_zone = zone, c_timestamp = ts\<rparr> s))"

text \<open>
  \<open>utcnow\<close> is the reading of \<^verbatim>\<open>datetime.datetime.utcnow().isoformat()\<close> at the call.
  \<^verbatim>\<open>if seen_with:\<close> skips both \<^verbatim>\<open>None\<close> and the empty list.
\<close>

definition record_placement ::
  "string \<Rightarrow> string \<Rightarrow> string \<Rightarrow> string \<Rightarrow> string option \<Rightarrow> string option \<Rightarrow> string list option
     \<Rightarrow> string option \<Rightarrow> string option \<Rightarrow> store \<Rightarrow> (error + unit) \<times> store" where
  "record_placement utcnow iid zone dtype rout mot seen_with timestamp meta =
     (let ts = (case timestamp of None \<Rightarrow> utcnow | Some t \<Rightarrow> t) in
      transaction (\<lambda>s.
        case insert_placement
               \<lparr>p_item_id = iid, p_zone = zone, p_distribution_type = dtype, p_routine = rout,
                p_motive = mot, p_timestamp = ts,
                p_metadata = (case meta of None \<Rightarrow> ''{}'' | Some m \<Rightarrow> m)\<rparr> s of
          Inl e \<Rightarrow> Inl e
        | Inr s1 \<Rightarrow>
            Inr (case seen_with of
                   None \<Rightarrow> s1
                 | Some others \<Rightarrow>
                     if others = [] then s1 else record_co_presence iid zone ts others s1)))"

definition register_zone :: "string \<Rightarrow> string \<Rightarrow> string \<Rightarrow> store \<Rightarrow> (error + unit) \<times> store" where
  "register_zone zid zname descr =
     transaction (\<lambda>s. Inr (insert_or_replace_zone
       \<lparr>zone_id = zid, zone_name = zname, description = descr\<rparr> s))"

subsection \<open>Query fragments\<close>

text \<open>
  \<^verbatim>\<open>ORDER BY k DESC\<close>: insertion sort into non-increasing key order. Rows with equal keys
  stay in rowid order; SQLite leaves their order open, and no result below depends on it.
\<close>

fun insert_desc :: "('a \<Rightarrow> 'k::linorder) \<Rightarrow> 'a \<Rightarrow> 'a list \<Rightarrow> 'a list" where
  "insert_desc k x [] = [x]"
| "insert_desc k x (y # ys) = (if k y \<le> k x then x # y # ys else y # insert_desc k x ys)"

definition order_by_desc :: "('a \<Rightarrow> 'k::linorder) \<Rightarrow> 'a list \<Rightarrow> 'a list" where
  "order_by_desc k xs = foldr (insert_desc k) xs []"

text \<open>\<^verbatim>\<open>LIMIT n\<close>: SQLite reads a negative limit as no limit at all.\<close>

definition sql_limit :: "int \<Rightarrow> 'a list \<Rightarrow> 'a list" where
  "sql_limit n xs = (if n < 0 then xs else take (nat n) xs)"

text \<open>The aggregate \<^verbatim>\<open>MAX\<close>: NULL over no rows.\<close>

fun sql_max :: "'k::linorder list \<Rightarrow> 'k option" where
  "sql_max [] = None"
| "sql_max (x # xs) = Some (fold max xs x)"



text \<open>
  \<^verbatim>\<open>round(x, 1)\<close>: to one decimal place, a tie going to the even neighbour.
\<close>

definition round1 :: "rat \<Rightarrow> rat" where
  "round1 x =
     (let f = \<lfloor>x * 10\<rfloor>; d = x * 10 - of_int f in
      of_int (if d < 1 / 2 then f else if 1 / 2 < d then f + 1
              else if even f then f else f + 1) / 10)"

subsection \<open>Projection engine\<close>

record lifecycle =
  lc_purchase_date :: string
  lc_age_years :: rat
  lc_expected_lifespan_years :: rat
  lc_remaining_years :: rat
  lc_health_percent :: rat

record refill_status =
  rs_current_quantity :: int
  rs_refill_threshold :: int
  needs_refill :: bool
  days_remaining :: "rat option"

record current_placement =
  cp_zone :: string
  cp_distribution_type :: string
  cp_routine :: "string option"
  cp_motive :: "string option"
  cp_timestamp :: string

record status =
  st_item_id :: string
  st_label :: string
  st_category :: string
  st_metadata :: string
  st_lifecycle :: "lifecycle option"
  st_refill_status :: "refill_status option"
  st_current_placement :: "current_placement option"

text \<open>
  The \<^verbatim>\<open>refillable\<close> branch of \<^verbatim>\<open>item_status\<close>. \<^verbatim>\<open>x or 0\<close> turns \<^verbatim>\<open>None\<close> into 0 and
  leaves every number as it is. The reported \<^verbatim>\<open>days_remaining\<close> is
  \<^verbatim>\<open>round(days_remaining, 1) if days_remaining else None\<close>: the test is on the truth value,
  so a quotient of 0 is reported as \<^verbatim>\<open>None\<close> too.
\<close>

definition refill_status_of :: "item_row \<Rightarrow> refill_status" where
  "refill_status_of i =
     (let quantity = (case current_quantity i of None \<Rightarrow> 0 | Some q \<Rightarrow> q);
          threshold = (case refill_threshold i of None \<Rightarrow> 0 | Some t \<Rightarrow> t);
          usage_rate = (case usage_rate_per_day i of None \<Rightarrow> 0 | Some u \<Rightarrow> u);
          days = (if 0 < usage_rate then Some (of_int quantity / usage_rate) else None)
      in \<lparr>rs_current_quantity = quantity,
          rs_refill_threshold = threshold,
          needs_refill = (quantity \<le> threshold),
          days_remaining = (case days of
                              None \<Rightarrow> None
                            | Some d \<Rightarrow> if d = 0 then None else Some (round1 d))\<rparr>)"

text \<open>
  The \<^verbatim>\<open>good_stuff\<close> branch, taken when the purchase date and the lifespan are both
  truthy (a non-empty string, a non-zero number). \<open>age_days d\<close> stands for
  \<^verbatim>\<open>(datetime.datetime.now() - datetime.datetime.fromisoformat(d)).days\<close> at the time of the
  call, \<open>None\<close> when \<^verbatim>\<open>fromisoformat\<close> raises.
\<close>

definition lifecycle_of :: "(string \<Rightarrow> int option) \<Rightarrow> string \<Rightarrow> rat \<Rightarrow> error + lifecycle" where
  "lifecycle_of age_days d lifespan_years =
     (case age_days d of
        None \<Rightarrow> Inl ValueError
      | Some days \<Rightarrow>
          let age_years = of_int days / 365.25;
              remaining_years = max 0 (lifespan_years - age_years)
          in Inr \<lparr>lc_purchase_date = d,
                  lc_age_years = round1 age_years,
                  lc_expected_lifespan_years = lifespan_years,
                  lc_remaining_years = round1 remaining_years,
                  lc_health_percent = round1 (remaining_years / lifespan_years * 100)\<rparr>)"

definition latest_placement :: "store \<Rightarrow> string \<Rightarrow> placement_row option" where
  "latest_placement s iid =
     (case sql_limit 1 (order_by_desc p_timestamp
                          (filter (\<lambda>p. p_item_id p = iid) (placements s))) of
        [] \<Rightarrow> None
      | p # _ \<Rightarrow> Some p)"

text \<open>
  The guard \<^verbatim>\<open>item[1] == "good_stuff" and item[2] and item[3]\<close>, with the two values it
  lets through.
\<close>

definition lifecycle_fields :: "item_row \<Rightarrow> (string \<times> rat) option" where
  "lifecycle_fields item =
     (if category item = ''good_stuff''
      then (case purchase_date item of
              None \<Rightarrow> None
            | Some d \<Rightarrow>
                (case expected_lifespan_years item of
                   None \<Rightarrow> None
                 | Some l \<Rightarrow> if d \<noteq> [] \<and> l \<noteq> 0 then Some (d, l) else None))
      else None)"

definition item_status :: "(string \<Rightarrow> int option) \<Rightarrow> store \<Rightarrow> string \<Rightarrow> error + status option" where
  "item_status age_days s iid =
     (case find (\<lambda>i. item_id i = iid) (items s) of
        None \<Rightarrow> Inr None
      | Some item \<Rightarrow>
          let placement = map_option
                (\<lambda>p. \<lparr>cp_zone = p_zone p, cp_distribution_type = p_distribution_type p,
                       cp_routine = p_routine p, cp_motive = p_motive p,
                       cp_timestamp = p_timestamp p\<rparr>)
                (latest_placement s iid);
              result = \<lparr>st_item_id = iid, st_label = label item, st_category = category item,
                        st_metadata = metadata item, st_lifecycle = None,
                        st_refill_status = None, st_current_placement = placement\<rparr>
          in (case lifecycle_fields item of
                Some (d, l) \<Rightarrow>
                  (case lifecycle_of age_days d l of
                     Inl e \<Rightarrow> Inl e
                   | Inr lc \<Rightarrow> Inr (Some (result\<lparr>st_lifecycle := Some lc\<rparr>)))
              | None \<Rightarrow>
                  if category item = ''refillable''
                  then Inr (Some (result\<lparr>st_refill_status := Some (refill_status_of item)\<rparr>))
                  else Inr (Some result)))"




record neighbor =
  n_item_id :: string
  n_label :: string
  n_zone :: string
  n_timestamp :: string

text \<open>
  The join of \<^verbatim>\<open>recent_neighbors\<close> before DISTINCT, ORDER BY and LIMIT: one row per
  co-presence edge leaving the item and item record matching the edge's other end.
\<close>

definition neighbor_rows :: "store \<Rightarrow> string \<Rightarrow> neighbor list" where
  "neighbor_rows s iid =
     concat (map (\<lambda>c. map (\<lambda>i. \<lparr>n_item_id = item_b c, n_label = label i,
                                  n_zone = c_zone c, n_timestamp = c_timestamp c\<rparr>)
                          (filter (\<lambda>i. item_b c = item_id i) (items s)))
                 (filter (\<lambda>c. item_a c = iid) (co_presence s)))"

definition recent_neighbors :: "store \<Rightarrow> string \<Rightarrow> int \<Rightarrow> neighbor list" where
  "recent_neighbors s iid limit =
     sql_limit limit (order_by_desc n_timestamp (remdups (neighbor_rows s iid)))"

record zone_item =
  z_item_id :: string
  z_label :: string
  z_category :: string
  z_distribution_type :: string
  z_last_updated :: string

text \<open>
  \<^verbatim>\<open>items_in_zone\<close>: the join of items and placements, kept where the placement is in the
  zone and its timestamp equals the correlated \<^verbatim>\<open>MAX(timestamp)\<close> over the item's
  placements; then DISTINCT.
\<close>

definition items_in_zone :: "store \<Rightarrow> string \<Rightarrow> zone_item list" where
  "items_in_zone s zone =
     remdups (concat (map (\<lambda>i.
       map (\<lambda>p. \<lparr>z_item_id = item_id i, z_label = label i, z_category = category i,
                  z_distribution_type = p_distribution_type p,
                  z_last_updated = p_timestamp p\<rparr>)
         (filter (\<lambda>p. item_id i = p_item_id p \<and> p_zone p = zone \<and>
                       Some (p_timestamp p) =
                         sql_max (map p_timestamp
                                    (filter (\<lambda>q. p_item_id q = item_id i) (placements s))))
            (placements s)))
       (items s)))"

subsection \<open>Pattern analyzer\<close>










subsection \<open>A small ledger\<close>

text \<open>
  Four registrations and three placements on a fresh database, used to run the operations
  on concrete data. The wallet is placed twice, each time next to the sock; the sock is
  placed once, with the clock supplying the timestamp.
\<close>

definition demo_items :: store where
  "demo_items =
     snd (register_item ''salt'' ''Salt Shaker'' ''refillable'' None None
            (Some 10) (Some 10) (Some 3) None
     (snd (register_item ''soap'' ''Soap'' ''refillable'' None None
            (Some 0) (Some 2) (Some 1) None
     (snd (register_item ''sock'' ''Left Sock'' ''good_stuff'' (Some ''2024-06-01'') (Some 2)
            None None None None
     (snd (register_item ''wallet'' ''Leather Wallet'' ''good_stuff'' (Some ''2020-03-10'')
            (Some 8) None None None None init_db)))))))"

definition demo_store :: store where
  "demo_store =
     snd (record_placement ''2024-01-03T08:00:00'' ''sock'' ''kitchen_table'' ''spread''
            None None None None None
     (snd (record_placement ''2024-01-02T09:30:00'' ''wallet'' ''hall'' ''placed''
            None None (Some [''sock'']) (Some ''2024-01-02T08:00:00'') None
     (snd (record_placement ''2024-01-01T09:30:00'' ''wallet'' ''kitchen_table'' ''stack''
            None (Some ''convenience'') (Some [''sock'']) (Some ''2024-01-01T08:00:00'') None
            demo_items)))))"

text \<open>A clock reading: the wallet was bought 2700 days ago, the sock 200 days ago.\<close>

definition demo_age_days :: "string \<Rightarrow> int option" where
  "demo_age_days = map_of [(''2020-03-10'', 2700), (''2024-06-01'', 200)]"

subsection \<open>Facts about the query fragments\<close>

lemma set_insert_desc: "set (insert_desc k x xs) = insert x (set xs)"
  by (induction xs) auto

lemma set_order_by_desc: "set (order_by_desc k xs) = set xs"
  by (induction xs) (simp_all add: order_by_desc_def set_insert_desc)







lemma set_sql_limit: "set (sql_limit n xs) \<subseteq> set xs"
  by (auto simp: sql_limit_def dest: in_set_takeD)





lemma sql_max_Some:
  "sql_max xs = Some m \<longleftrightarrow> m \<in> set xs \<and> (\<forall>x\<in>set xs. x \<le> m)"
proof (cases xs)
  case Nil
  then show ?thesis by simp
next
  case (Cons y ys)
  have "fold max ys y = Max (set (y # ys))"
    by (simp only: Max.set_eq_fold)
  moreover have "Max (set (y # ys)) = m \<longleftrightarrow> m \<in> set (y # ys) \<and> (\<forall>x\<in>set (y # ys). x \<le> m)"
    by (rule Max_eq_iff) simp_all
  ultimately show ?thesis using Cons by simp
qed









lemma record_co_presence_fields:
  "items (record_co_presence a z t xs s) = items s \<and>
   placements (record_co_presence a z t xs s) = placements s \<and>
   zones (record_co_presence a z t xs s) = zones s \<and>
   co_presence (record_co_presence a z t xs s) =
     co_presence s @
     concat (map (\<lambda>x. [\<lparr>item_a = a, item_b = x, c_zone = z, c_timestamp = t\<rparr>,
                         \<lparr>item_a = x, item_b = a, c_zone = z, c_timestamp = t\<rparr>]) xs)"
  by (induction xs arbitrary: s) (simp_all add: insert_co_presence_def)

lemma record_placement_rejected:
  "dtype \<notin> set distribution_types \<Longrightarrow>
   record_placement now a z dtype r m sw ts meta s = (Inl IntegrityError, s)"
  by (simp add: record_placement_def transaction_def insert_placement_def Let_def)

lemma record_placement_accepted:
  assumes "dtype \<in> set distribution_types"
  shows "\<exists>s'. record_placement now a z dtype r m sw ts meta s = (Inr (), s') \<and>
     items s' = items s \<and> zones s' = zones s \<and>
     placements s' = placements s @
       [\<lparr>p_item_id = a, p_zone = z, p_distribution_type = dtype, p_routine = r,
         p_motive = m, p_timestamp = (case ts of None \<Rightarrow> now | Some t \<Rightarrow> t),
         p_metadata = (case meta of None \<Rightarrow> ''{}'' | Some j \<Rightarrow> j)\<rparr>] \<and>
     co_presence s' = co_presence s @
       concat (map (\<lambda>x. [\<lparr>item_a = a, item_b = x, c_zone = z,
                            c_timestamp = (case ts of None \<Rightarrow> now | Some t \<Rightarrow> t)\<rparr>,
                          \<lparr>item_a = x, item_b = a, c_zone = z,
                            c_timestamp = (case ts of None \<Rightarrow> now | Some t \<Rightarrow> t)\<rparr>])
                   (case sw of None \<Rightarrow> [] | Some xs \<Rightarrow> xs))"
  using assms
  by (cases sw)
     (simp_all add: record_placement_def transaction_def insert_placement_def Let_def
        record_co_presence_fields)

text \<open>
  C3. \<^verbatim>\<open>register_item\<close> with a category outside the three allowed values and
  \<^verbatim>\<open>record_placement\<close> with a distribution type outside the five allowed values both
  raise, and the store after the call is the store before it.
\<close>

theorem invalid_values_rejected:
  "(cat \<notin> set categories \<longrightarrow>
      register_item iid lbl cat pdate lifespan quantity threshold usage_rate meta s =
        (Inl IntegrityError, s)) \<and>
   (dtype \<notin> set distribution_types \<longrightarrow>
      record_placement now a z dtype r m sw ts pmeta s = (Inl IntegrityError, s))"
  by (simp add: register_item_def transaction_def insert_or_replace_item_def
      record_placement_rejected)

theorem invalid_values_rejected_witness:
  "''junk'' \<notin> set categories \<and>
   register_item ''wallet'' ''Leather Wallet'' ''junk'' None None None None None None demo_store =
     (Inl IntegrityError, demo_store) \<and>
   ''thrown'' \<notin> set distribution_types \<and>
   record_placement ''2024-01-04T08:00:00'' ''wallet'' ''hall'' ''thrown'' None None
       (Some [''sock'']) None None demo_store =
     (Inl IntegrityError, demo_store)"
proof -
  have c: "''junk'' \<notin> set categories" by code_simp
  have d: "''thrown'' \<notin> set distribution_types" by code_simp
  from c d show ?thesis
    using invalid_values_rejected [of "''junk''" "''wallet''" "''Leather Wallet''" None None
        None None None None demo_store "''thrown''" "''2024-01-04T08:00:00''" "''wallet''"
        "''hall''" None None "Some [''sock'']" None None]
    by blast
qed

text \<open>
  C4. A placement of item \<open>a\<close> that is accepted appends, for each identity listed in
  \<^verbatim>\<open>seen_with\<close> and in that order, the row \<open>(a, x)\<close> followed by the row \<open>(x, a)\<close>, both
  with the zone and the timestamp of the placement row appended by the same call; with
  \<^verbatim>\<open>seen_with\<close> omitted or empty the co-presence table is unchanged. A rejected placement,
  \<^verbatim>\<open>register_item\<close> and \<^verbatim>\<open>register_zone\<close> leave the co-presence table as it was.
\<close>

theorem co_presence_only_from_placements:
  "(dtype \<in> set distribution_types \<longrightarrow>
      (\<exists>s' p. record_placement now a z dtype r m sw ts pmeta s = (Inr (), s') \<and>
         placements s' = placements s @ [p] \<and> p_item_id p = a \<and> p_zone p = z \<and>
         co_presence s' = co_presence s @
           concat (map (\<lambda>x. [\<lparr>item_a = a, item_b = x, c_zone = p_zone p,
                                c_timestamp = p_timestamp p\<rparr>,
                              \<lparr>item_a = x, item_b = a, c_zone = p_zone p,
                                c_timestamp = p_timestamp p\<rparr>])
                       (case sw of None \<Rightarrow> [] | Some xs \<Rightarrow> xs)))) \<and>
   (dtype \<notin> set distribution_types \<longrightarrow>
      co_presence (snd (record_placement now a z dtype r m sw ts pmeta s)) = co_presence s) \<and>
   co_presence (snd (register_item iid lbl cat pdate lifespan quantity threshold usage_rate
                       meta s)) = co_presence s \<and>
   co_presence (snd (register_zone zid zname descr s)) = co_presence s"
proof -
  have "\<exists>s' p. record_placement now a z dtype r m sw ts pmeta s = (Inr (), s') \<and>
         placements s' = placements s @ [p] \<and> p_item_id p = a \<and> p_zone p = z \<and>
         co_presence s' = co_presence s @
           concat (map (\<lambda>x. [\<lparr>item_a = a, item_b = x, c_zone = p_zone p,
                                c_timestamp = p_timestamp p\<rparr>,
                              \<lparr>item_a = x, item_b = a, c_zone = p_zone p,
                                c_timestamp = p_timestamp p\<rparr>])
                       (case sw of None \<Rightarrow> [] | Some xs \<Rightarrow> xs))"
    if "dtype \<in> set distribution_types"
  proof -
    from record_placement_accepted [OF that, of now a z r m sw ts pmeta s]
    obtain s' where s': "record_placement now a z dtype r m sw ts pmeta s = (Inr (), s')"
      "placements s' = placements s @
       [\<lparr>p_item_id = a, p_zone = z, p_distribution_type = dtype, p_routine = r,
         p_motive = m, p_timestamp = (case ts of None \<Rightarrow> now | Some t \<Rightarrow> t),
         p_metadata = (case pmeta of None \<Rightarrow> ''{}'' | Some j \<Rightarrow> j)\<rparr>]"
      "co_presence s' = co_presence s @
       concat (map (\<lambda>x. [\<lparr>item_a = a, item_b = x, c_zone = z,
                            c_timestamp = (case ts of None \<Rightarrow> now | Some t \<Rightarrow> t)\<rparr>,
                          \<lparr>item_a = x, item_b = a, c_zone = z,
                            c_timestamp = (case ts of None \<Rightarrow> now | Some t \<Rightarrow> t)\<rparr>])
                   (case sw of None \<Rightarrow> [] | Some xs \<Rightarrow> xs))"
      by blast
    show ?thesis
      by (rule exI [of _ s'], rule exI [of _ "\<lparr>p_item_id = a, p_zone = z,
            p_distribution_type = dtype, p_routine = r, p_motive = m,
            p_timestamp = (case ts of None \<Rightarrow> now | Some t \<Rightarrow> t),
            p_metadata = (case pmeta of None \<Rightarrow> ''{}'' | Some j \<Rightarrow> j)\<rparr>"])
         (simp add: s')
  qed
  moreover have "co_presence (snd (record_placement now a z dtype r m sw ts pmeta s)) =
      co_presence s" if "dtype \<notin> set distribution_types"
    using that by (simp add: record_placement_rejected)
  moreover have "co_presence (snd (register_item iid lbl cat pdate lifespan quantity threshold
      usage_rate meta s)) = co_presence s"
    by (simp add: register_item_def transaction_def insert_or_replace_item_def)
  moreover have "co_presence (snd (register_zone zid zname descr s)) = co_presence s"
    by (simp add: register_zone_def transaction_def insert_or_replace_zone_def)
  ultimately show ?thesis by blast
qed


theorem co_presence_only_from_placements_witness:
  "''placed'' \<in> set distribution_types \<and>
   (\<exists>s' p. record_placement ''2024-01-04T08:00:00'' ''wallet'' ''hall'' ''placed'' None None
              (Some [''salt'']) None None demo_store = (Inr (), s') \<and>
      placements s' = placements demo_store @ [p] \<and>
      p_item_id p = ''wallet'' \<and> p_zone p = ''hall'' \<and>
      p_timestamp p = ''2024-01-04T08:00:00'' \<and>
      co_presence s' = co_presence demo_store @
        [\<lparr>item_a = ''wallet'', item_b = ''salt'', c_zone = ''hall'',
          c_timestamp = ''2024-01-04T08:00:00''\<rparr>,
         \<lparr>item_a = ''salt'', item_b = ''wallet'', c_zone = ''hall'',
          c_timestamp = ''2024-01-04T08:00:00''\<rparr>]) \<and>
   ''thrown'' \<notin> set distribution_types \<and>
   co_presence (snd (record_placement ''2024-01-04T08:00:00'' ''wallet'' ''hall'' ''thrown''
                       None None (Some [''salt'']) None None demo_store)) =
     co_presence demo_store"
proof -
  have ok: "''placed'' \<in> set distribution_types" by code_simp
  have bad: "''thrown'' \<notin> set distribution_types" by code_simp
  from ok co_presence_only_from_placements [of "''placed''" "''2024-01-04T08:00:00''"
      "''wallet''" "''hall''" None None "Some [''salt'']" None None demo_store]
  obtain s' p where
    run: "record_placement ''2024-01-04T08:00:00'' ''wallet'' ''hall'' ''placed'' None None
            (Some [''salt'']) None None demo_store = (Inr (), s')" and
    pl: "placements s' = placements demo_store @ [p]" "p_item_id p = ''wallet''"
      "p_zone p = ''hall''" and
    co: "co_presence s' = co_presence demo_store @
           concat (map (\<lambda>x. [\<lparr>item_a = ''wallet'', item_b = x, c_zone = p_zone p,
                                c_timestamp = p_timestamp p\<rparr>,
                              \<lparr>item_a = x, item_b = ''wallet'', c_zone = p_zone p,
                                c_timestamp = p_timestamp p\<rparr>])
                       (case Some [''salt''] of None \<Rightarrow> [] | Some xs \<Rightarrow> xs))"
    by blast
  from record_placement_accepted [OF ok, of "''2024-01-04T08:00:00''" "''wallet''" "''hall''"
      None None "Some [''salt'']" None None demo_store] run pl
  have ts: "p_timestamp p = ''2024-01-04T08:00:00''" by auto
  from bad co_presence_only_from_placements [of "''thrown''" "''2024-01-04T08:00:00''"
      "''wallet''" "''hall''" None None "Some [''salt'']" None None demo_store]
  have rej: "co_presence (snd (record_placement ''2024-01-04T08:00:00'' ''wallet'' ''hall''
      ''thrown'' None None (Some [''salt'']) None None demo_store)) = co_presence demo_store"
    by blast
  from co pl ts have co': "co_presence s' = co_presence demo_store @
        [\<lparr>item_a = ''wallet'', item_b = ''salt'', c_zone = ''hall'',
          c_timestamp = ''2024-01-04T08:00:00''\<rparr>,
         \<lparr>item_a = ''salt'', item_b = ''wallet'', c_zone = ''hall'',
          c_timestamp = ''2024-01-04T08:00:00''\<rparr>]"
    by simp
  from ok bad run pl ts co' rej show ?thesis by blast
qed


lemma item_status_refillable:
  assumes "find (\<lambda>i. item_id i = iid) (items s) = Some i" and "category i = ''refillable''"
  shows "\<exists>st. item_status age_days s iid = Inr (Some st) \<and>
           st_refill_status st = Some (refill_status_of i)"
  using assms by (simp add: item_status_def lifecycle_fields_def Let_def)

text \<open>
  C7. For a refillable item, \<^verbatim>\<open>item_status\<close> returns a refill status whose
  \<^verbatim>\<open>needs_refill\<close> is true exactly when the current quantity is at most the refill
  threshold, an absent quantity or threshold counting as 0; equal values give true.
\<close>

theorem needs_refill_inclusive:
  assumes "find (\<lambda>i. item_id i = iid) (items s) = Some i" and "category i = ''refillable''"
  shows "\<exists>st rs. item_status age_days s iid = Inr (Some st) \<and>
           st_refill_status st = Some rs \<and>
           (needs_refill rs \<longleftrightarrow>
              (case current_quantity i of None \<Rightarrow> 0 | Some q \<Rightarrow> q) \<le>
              (case refill_threshold i of None \<Rightarrow> 0 | Some t \<Rightarrow> t))"
proof -
  from item_status_refillable [OF assms, of age_days]
  obtain st where "item_status age_days s iid = Inr (Some st)"
    and "st_refill_status st = Some (refill_status_of i)"
    by blast
  moreover have "needs_refill (refill_status_of i) \<longleftrightarrow>
      (case current_quantity i of None \<Rightarrow> 0 | Some q \<Rightarrow> q) \<le>
      (case refill_threshold i of None \<Rightarrow> 0 | Some t \<Rightarrow> t)"
    by (simp add: refill_status_of_def Let_def)
  ultimately show ?thesis by blast
qed

theorem needs_refill_inclusive_witness:
  "find (\<lambda>i. item_id i = ''salt'') (items demo_store) =
     Some \<lparr>item_id = ''salt'', label = ''Salt Shaker'', category = ''refillable'',
           purchase_date = None, expected_lifespan_years = None, current_quantity = Some 10,
           refill_threshold = Some 10, usage_rate_per_day = Some 3, metadata = ''{}''\<rparr> \<and>
   (\<exists>st rs. item_status demo_age_days demo_store ''salt'' = Inr (Some st) \<and>
      st_refill_status st = Some rs \<and> needs_refill rs)"
proof -
  have f: "find (\<lambda>i. item_id i = ''salt'') (items demo_store) =
     Some \<lparr>item_id = ''salt'', label = ''Salt Shaker'', category = ''refillable'',
           purchase_date = None, expected_lifespan_years = None, current_quantity = Some 10,
           refill_threshold = Some 10, usage_rate_per_day = Some 3, metadata = ''{}''\<rparr>"
    by code_simp
  from needs_refill_inclusive [OF f, of demo_age_days] f show ?thesis by simp
qed













lemma sql_max_eq_Some:
  "Some m = sql_max xs \<longleftrightarrow> m \<in> set xs \<and> (\<forall>x\<in>set xs. x \<le> m)"
  using sql_max_Some [of xs m] by auto

lemma items_in_zone_ids:
  "z_item_id ` set (items_in_zone s zone) =
     {item_id i | i. i \<in> set (items s) \<and>
        (\<exists>p\<in>set (placements s). p_item_id p = item_id i \<and> p_zone p = zone \<and>
           (\<forall>q\<in>set (placements s). p_item_id q = item_id i \<longrightarrow>
              p_timestamp q \<le> p_timestamp p))}"
  by (auto simp: items_in_zone_def sql_max_eq_Some image_iff) force+

text \<open>
  C5. \<^verbatim>\<open>items_in_zone\<close> returns exactly the registered items that have a placement in
  the zone whose timestamp is the greatest among all placements of the item, in any zone.
  An item with a placement newer than each of its placements in the zone is not returned.
\<close>

theorem items_in_zone_latest:
  "z_item_id ` set (items_in_zone s zone) =
     {item_id i | i. i \<in> set (items s) \<and>
        (\<exists>p\<in>set (placements s). p_item_id p = item_id i \<and> p_zone p = zone \<and>
           (\<forall>q\<in>set (placements s). p_item_id q = item_id i \<longrightarrow>
              p_timestamp q \<le> p_timestamp p))} \<and>
   (\<forall>q. q \<in> set (placements s) \<and> p_item_id q = iid \<and>
        (\<forall>p\<in>set (placements s). p_item_id p = iid \<and> p_zone p = zone \<longrightarrow>
           p_timestamp p < p_timestamp q) \<longrightarrow>
      iid \<notin> z_item_id ` set (items_in_zone s zone))"
proof -
  have "iid \<notin> z_item_id ` set (items_in_zone s zone)"
    if q: "q \<in> set (placements s)" "p_item_id q = iid"
      and newer: "\<forall>p\<in>set (placements s). p_item_id p = iid \<and> p_zone p = zone \<longrightarrow>
           p_timestamp p < p_timestamp q" for q
  proof
    assume "iid \<in> z_item_id ` set (items_in_zone s zone)"
    then obtain p where p: "p \<in> set (placements s)" "p_item_id p = iid" "p_zone p = zone"
      and latest: "\<forall>q\<in>set (placements s). p_item_id q = iid \<longrightarrow> p_timestamp q \<le> p_timestamp p"
      unfolding items_in_zone_ids by auto
    from latest q have "p_timestamp q \<le> p_timestamp p" by blast
    moreover from newer p have "p_timestamp p < p_timestamp q" by blast
    ultimately show False by simp
  qed
  with items_in_zone_ids [of s zone] show ?thesis by blast
qed

theorem items_in_zone_latest_witness:
  "\<lparr>p_item_id = ''wallet'', p_zone = ''hall'', p_distribution_type = ''placed'',
     p_routine = None, p_motive = None, p_timestamp = ''2024-01-02T08:00:00'',
     p_metadata = ''{}''\<rparr> \<in> set (placements demo_store) \<and>
   ''wallet'' \<notin> z_item_id ` set (items_in_zone demo_store ''kitchen_table'') \<and>
   z_item_id ` set (items_in_zone demo_store ''kitchen_table'') = {''sock''} \<and>
   (\<exists>i. i \<in> set (items demo_store) \<and> item_id i = ''sock'' \<and>
      (\<exists>p\<in>set (placements demo_store). p_item_id p = item_id i \<and>
         p_zone p = ''kitchen_table'' \<and>
         (\<forall>q\<in>set (placements demo_store). p_item_id q = item_id i \<longrightarrow>
            p_timestamp q \<le> p_timestamp p)))"
proof -
  let ?q = "\<lparr>p_item_id = ''wallet'', p_zone = ''hall'', p_distribution_type = ''placed'',
     p_routine = None, p_motive = None, p_timestamp = ''2024-01-02T08:00:00'',
     p_metadata = ''{}''\<rparr>"
  have q: "?q \<in> set (placements demo_store) \<and> p_item_id ?q = ''wallet'' \<and>
      (\<forall>p\<in>set (placements demo_store). p_item_id p = ''wallet'' \<and> p_zone p = ''kitchen_table'' \<longrightarrow>
         p_timestamp p < p_timestamp ?q)"
    by code_simp
  have e: "z_item_id ` set (items_in_zone demo_store ''kitchen_table'') = {''sock''}"
    by code_simp
  note t = items_in_zone_latest [of demo_store "''kitchen_table''" "''wallet''"]
  from t have excl: "\<forall>q. q \<in> set (placements demo_store) \<and> p_item_id q = ''wallet'' \<and>
        (\<forall>p\<in>set (placements demo_store). p_item_id p = ''wallet'' \<and> p_zone p = ''kitchen_table'' \<longrightarrow>
           p_timestamp p < p_timestamp q) \<longrightarrow>
      ''wallet'' \<notin> z_item_id ` set (items_in_zone demo_store ''kitchen_table'')"
    by (rule conjunct2)
  from excl [rule_format, OF q]
  have out: "''wallet'' \<notin> z_item_id ` set (items_in_zone demo_store ''kitchen_table'')" .
  from t have eq: "z_item_id ` set (items_in_zone demo_store ''kitchen_table'') =
     {item_id i | i. i \<in> set (items demo_store) \<and>
        (\<exists>p\<in>set (placements demo_store). p_item_id p = item_id i \<and>
           p_zone p = ''kitchen_table'' \<and>
           (\<forall>q\<in>set (placements demo_store). p_item_id q = item_id i \<longrightarrow>
              p_timestamp q \<le> p_timestamp p))}"
    by (rule conjunct1)
  have "''sock'' \<in> z_item_id ` set (items_in_zone demo_store ''kitchen_table'')"
    unfolding e by simp
  then have "''sock'' \<in> {item_id i | i. i \<in> set (items demo_store) \<and>
        (\<exists>p\<in>set (placements demo_store). p_item_id p = item_id i \<and>
           p_zone p = ''kitchen_table'' \<and>
           (\<forall>q\<in>set (placements demo_store). p_item_id q = item_id i \<longrightarrow>
              p_timestamp q \<le> p_timestamp p))}"
    unfolding eq .
  then obtain i where "i \<in> set (items demo_store)" "item_id i = ''sock''"
      "\<exists>p\<in>set (placements demo_store). p_item_id p = item_id i \<and>
         p_zone p = ''kitchen_table'' \<and>
         (\<forall>q\<in>set (placements demo_store). p_item_id q = item_id i \<longrightarrow>
            p_timestamp q \<le> p_timestamp p)"
    unfolding mem_Collect_eq by metis
  then have inn: "\<exists>i. i \<in> set (items demo_store) \<and> item_id i = ''sock'' \<and>
      (\<exists>p\<in>set (placements demo_store). p_item_id p = item_id i \<and>
         p_zone p = ''kitchen_table'' \<and>
         (\<forall>q\<in>set (placements demo_store). p_item_id q = item_id i \<longrightarrow>
            p_timestamp q \<le> p_timestamp p))"
    by (intro exI [of _ i] conjI)
  from q have qm: "?q \<in> set (placements demo_store)" by (rule conjunct1)
  show ?thesis by (intro conjI qm out e inn)
qed







lemma neighbor_rows_registered:
  "r \<in> set (neighbor_rows s iid) \<Longrightarrow> n_item_id r \<in> item_id ` set (items s)"
  by (auto simp: neighbor_rows_def)

lemma recent_neighbors_registered:
  assumes "r \<in> set (recent_neighbors s iid n)"
  shows "n_item_id r \<in> item_id ` set (items s)"
proof -
  from assms set_sql_limit [of n "order_by_desc n_timestamp (remdups (neighbor_rows s iid))"]
  have "r \<in> set (neighbor_rows s iid)"
    by (auto simp: recent_neighbors_def set_order_by_desc)
  then show ?thesis by (rule neighbor_rows_registered)
qed

text \<open>
  C10. Every row of \<^verbatim>\<open>recent_neighbors\<close> names a registered item. A placement that lists
  an unregistered identity is accepted all the same, its two co-presence rows are stored,
  and that identity appears in no \<^verbatim>\<open>recent_neighbors\<close> result afterwards.
\<close>

theorem unregistered_neighbor_omitted:
  "(\<forall>r\<in>set (recent_neighbors s iid n). n_item_id r \<in> item_id ` set (items s)) \<and>
   (dtype \<in> set distribution_types \<and> x \<notin> item_id ` set (items s) \<longrightarrow>
      (\<exists>s'. record_placement now a z dtype rout mot (Some [x]) ts pmeta s = (Inr (), s') \<and>
         co_presence s' = co_presence s @
           [\<lparr>item_a = a, item_b = x, c_zone = z,
             c_timestamp = (case ts of None \<Rightarrow> now | Some t \<Rightarrow> t)\<rparr>,
            \<lparr>item_a = x, item_b = a, c_zone = z,
             c_timestamp = (case ts of None \<Rightarrow> now | Some t \<Rightarrow> t)\<rparr>] \<and>
         x \<notin> n_item_id ` set (recent_neighbors s' iid n)))"
proof -
  have reg: "\<forall>r\<in>set (recent_neighbors s iid n). n_item_id r \<in> item_id ` set (items s)"
    using recent_neighbors_registered by blast
  have "\<exists>s'. record_placement now a z dtype rout mot (Some [x]) ts pmeta s = (Inr (), s') \<and>
         co_presence s' = co_presence s @
           [\<lparr>item_a = a, item_b = x, c_zone = z,
             c_timestamp = (case ts of None \<Rightarrow> now | Some t \<Rightarrow> t)\<rparr>,
            \<lparr>item_a = x, item_b = a, c_zone = z,
             c_timestamp = (case ts of None \<Rightarrow> now | Some t \<Rightarrow> t)\<rparr>] \<and>
         x \<notin> n_item_id ` set (recent_neighbors s' iid n)"
    if ok: "dtype \<in> set distribution_types" and ghost: "x \<notin> item_id ` set (items s)"
  proof -
    from record_placement_accepted [OF ok, of now a z rout mot "Some [x]" ts pmeta s]
    obtain s' where run: "record_placement now a z dtype rout mot (Some [x]) ts pmeta s =
        (Inr (), s')"
      and its: "items s' = items s"
      and co: "co_presence s' = co_presence s @
           [\<lparr>item_a = a, item_b = x, c_zone = z,
             c_timestamp = (case ts of None \<Rightarrow> now | Some t \<Rightarrow> t)\<rparr>,
            \<lparr>item_a = x, item_b = a, c_zone = z,
             c_timestamp = (case ts of None \<Rightarrow> now | Some t \<Rightarrow> t)\<rparr>]"
      by auto
    have "x \<notin> n_item_id ` set (recent_neighbors s' iid n)"
    proof
      assume "x \<in> n_item_id ` set (recent_neighbors s' iid n)"
      then obtain r where "r \<in> set (recent_neighbors s' iid n)" and "n_item_id r = x"
        by blast
      with recent_neighbors_registered [of r s' iid n] its
      have "x \<in> item_id ` set (items s)" by simp
      with ghost show False by contradiction
    qed
    with run co show ?thesis by blast
  qed
  with reg show ?thesis by blast
qed

theorem unregistered_neighbor_omitted_witness:
  "''placed'' \<in> set distribution_types \<and> ''ghost'' \<notin> item_id ` set (items demo_store) \<and>
   (\<exists>s'. record_placement ''2024-01-04T08:00:00'' ''wallet'' ''hall'' ''placed'' None None
            (Some [''ghost'']) None None demo_store = (Inr (), s') \<and>
      co_presence s' = co_presence demo_store @
        [\<lparr>item_a = ''wallet'', item_b = ''ghost'', c_zone = ''hall'',
          c_timestamp = ''2024-01-04T08:00:00''\<rparr>,
         \<lparr>item_a = ''ghost'', item_b = ''wallet'', c_zone = ''hall'',
          c_timestamp = ''2024-01-04T08:00:00''\<rparr>] \<and>
      ''ghost'' \<notin> n_item_id ` set (recent_neighbors s' ''wallet'' 10)) \<and>
   \<lparr>n_item_id = ''sock'', n_label = ''Left Sock'', n_zone = ''hall'',
     n_timestamp = ''2024-01-02T08:00:00''\<rparr> \<in> set (recent_neighbors demo_store ''wallet'' 10) \<and>
   ''sock'' \<in> item_id ` set (items demo_store)"
proof -
  have ok: "''placed'' \<in> set distribution_types" by code_simp
  have ghost: "''ghost'' \<notin> item_id ` set (items demo_store)" by code_simp
  have row: "\<lparr>n_item_id = ''sock'', n_label = ''Left Sock'', n_zone = ''hall'',
     n_timestamp = ''2024-01-02T08:00:00''\<rparr> \<in> set (recent_neighbors demo_store ''wallet'' 10)"
    by code_simp
  note t = unregistered_neighbor_omitted [of demo_store "''wallet''" 10 "''placed''" "''ghost''"
      "''2024-01-04T08:00:00''" "''wallet''" "''hall''" None None None None]
  from t row have "n_item_id \<lparr>n_item_id = ''sock'', n_label = ''Left Sock'', n_zone = ''hall'',
     n_timestamp = ''2024-01-02T08:00:00''\<rparr> \<in> item_id ` set (items demo_store)"
    by blast
  then have sock: "''sock'' \<in> item_id ` set (items demo_store)" by simp
  from t ok ghost have "\<exists>s'. record_placement ''2024-01-04T08:00:00'' ''wallet'' ''hall''
            ''placed'' None None (Some [''ghost'']) None None demo_store = (Inr (), s') \<and>
      co_presence s' = co_presence demo_store @
        [\<lparr>item_a = ''wallet'', item_b = ''ghost'', c_zone = ''hall'',
          c_timestamp = ''2024-01-04T08:00:00''\<rparr>,
         \<lparr>item_a = ''ghost'', item_b = ''wallet'', c_zone = ''hall'',
          c_timestamp = ''2024-01-04T08:00:00''\<rparr>] \<and>
      ''ghost'' \<notin> n_item_id ` set (recent_neighbors s' ''wallet'' 10)"
    by simp
  with ok ghost row sock show ?thesis by blast
qed

end
